theory Spec2Isabelle
  imports Complex_Main "HOL-Library.Log_Nat"
begin

section \<open>The streaming playback session manager (class LiveMusicHelper)\<close>

text \<open>
  The class is event driven: user commands, transport callbacks, timers and the
  continuations of its \<^verbatim>\<open>async\<close> methods all run on one JavaScript thread, each to
  completion or to its next \<^verbatim>\<open>await\<close>. The embedding has one function per synchronous
  segment of a method (the part before an \<^verbatim>\<open>await\<close> is \<open>_begin\<close>, the part after it
  \<open>_resume\<close>), a record of the object's fields, and a trace of the calls the object
  makes to its collaborators (event dispatch, the remote session, the audio graph,
  timers). Calls to \<^verbatim>\<open>this.log\<close> only write to the console and are left out, with
  the diagnostic \<^verbatim>\<open>sessionId\<close> and the constant \<^verbatim>\<open>model\<close> they print.

  Times (\<^verbatim>\<open>audioContext.currentTime\<close>, \<^verbatim>\<open>nextStartTime\<close>, buffer durations) are
  JavaScript numbers, that is IEEE 754 binary64 values; every such value is a real
  number, and comparison is that of the reals. The segments of the event loop add
  them exactly, which is what one synchronous segment does up to the last bit of a
  sum. Where sums accumulate from fragment to fragment the rounding decides which
  branch is taken; for that, the scheduling segment is given a second time with the
  sums rounded as the code rounds them (\<open>processAudioChunks_resume64\<close>).
\<close>

subsection \<open>Data\<close>

datatype PlaybackState = Stopped | Loading | Playing | Paused

text \<open>
  Modelled from the spec: the type \<^verbatim>\<open>Prompt\<close> is declared in \<^verbatim>\<open>../types\<close>, which is
  not among the sources; the fields are those of the specification's data model
  (\<^verbatim>\<open>text\<close> is written \<open>ptext\<close>). The helper reads only \<open>ptext\<close> and \<open>weight\<close>.
\<close>

record Prompt =
  promptId :: string
  ptext :: string
  weight :: real
  cc :: int
  color :: string

text \<open>The parts of the SDK's message types that the helper reads.\<close>

record AudioChunk =
  data :: "string option"

record LiveMusicFilteredPrompt =
  ftext :: string
  filteredReason :: string

record LiveMusicServerMessage =
  setupComplete :: bool
  filteredPrompt :: "LiveMusicFilteredPrompt option"
  audioChunks :: "AudioChunk list option"

text \<open>A decoded \<^verbatim>\<open>AudioBuffer\<close>; the helper reads its \<^verbatim>\<open>duration\<close> (seconds).\<close>

record AudioBuffer =
  duration :: real

text \<open>
  A connection attempt is one call of \<^verbatim>\<open>connect()\<close>; attempts are numbered in the
  order they are made. \<^verbatim>\<open>sessionPromise\<close> holds either the promise of the \<^verbatim>\<open>async\<close>
  method \<^verbatim>\<open>connect\<close> itself or the promise returned by \<^verbatim>\<open>ai.live.music.connect\<close>;
  the first is resolved with the second, so both settle to the session of the same
  attempt.
\<close>

datatype promise = ConnectPromise nat | LivePromise nat

fun attempt_of :: "promise \<Rightarrow> nat" where
  "attempt_of (ConnectPromise n) = n"
| "attempt_of (LivePromise n) = n"

datatype control = CtlPlay | CtlPause | CtlStop | CtlSetWeightedPrompts "Prompt list"

text \<open>
  What the object does to the outside, in the order it does it. \<open>SessionCall n c\<close> is
  the call of method \<open>c\<close> on the session of attempt \<open>n\<close>, recorded whether or not the
  call then throws. Gain nodes are numbered in the order they are created.
\<close>

datatype effect =
    PlaybackStateChanged PlaybackState
  | ErrorEvent string
  | FilteredPromptEvent LiveMusicFilteredPrompt
  | AiFactory nat
  | LiveConnect nat
  | SessionCall nat control
  | SetValueAtTime nat real real
  | LinearRampToValueAtTime nat real real
  | CreateGain nat
  | SourceCreated AudioBuffer nat
  | SourceStart AudioBuffer real
  | SetTimeout real
  | ContextResume
  | ConnectDestination nat
  | ConnectExtra nat nat

text \<open>
  The fields of the class, then what the JavaScript runtime holds for it: the trace,
  the counters that number attempts and gain nodes, and the operations that are
  pending (suspended at an \<^verbatim>\<open>await\<close>, or a timer not yet fired). \<open>prompts\<close> is the
  content of the Map the field refers to, in the Map's order; the Map and its Prompt
  objects are shared with the caller (see \<open>promptChanged\<close> below).
\<close>

record LiveMusicHelper =
  session :: "nat option"
  sessionPromise :: "promise option"
  connectionError :: bool
  filteredPrompts :: "string set"
  nextStartTime :: real
  playbackState :: PlaybackState
  prompts :: "(string \<times> Prompt) list"
  outputNode :: nat
  extraDestination :: "nat option"
  currentTime :: real
  trace :: "effect list"
  attempts :: nat
  gainNodes :: nat
  awaitingFactory :: "nat list"
  connecting :: "nat list"
  opened :: "nat list"
  transports :: "nat list"
  decoding :: "AudioChunk list"
  timers :: nat
  sending :: nat
  playsWaiting :: "promise list"
  playsFlushing :: nat

text \<open>\<^verbatim>\<open>private bufferTime = 2\<close>: the field is never assigned again.\<close>

definition bufferTime :: real where
  "bufferTime = 2"

text \<open>The object after its constructor: the field initialisers and one gain node.\<close>

definition initial :: LiveMusicHelper where
  "initial =
    \<lparr> session = None, sessionPromise = None, connectionError = True,
      filteredPrompts = {}, nextStartTime = 0, playbackState = Stopped,
      prompts = [], outputNode = 0, extraDestination = None, currentTime = 0,
      trace = [], attempts = 0, gainNodes = 1, awaitingFactory = [],
      connecting = [], opened = [], transports = [], decoding = [], timers = 0,
      sending = 0, playsWaiting = [], playsFlushing = 0 \<rparr>"

subsection \<open>Connection\<close>

definition emit :: "effect \<Rightarrow> LiveMusicHelper \<Rightarrow> LiveMusicHelper" where
  "emit e s = s\<lparr>trace := trace s @ [e]\<rparr>"

text \<open>
  \<^verbatim>\<open>connect()\<close> up to \<^verbatim>\<open>await this.aiFactory()\<close>: the factory is called, and the
  method's own promise is returned.
\<close>

definition connect_begin :: "LiveMusicHelper \<Rightarrow> promise \<times> LiveMusicHelper" where
  "connect_begin s =
    (let n = attempts s in
     (ConnectPromise n,
      (emit (AiFactory n) s)
        \<lparr>attempts := Suc n, awaitingFactory := awaitingFactory s @ [n]\<rparr>))"

text \<open>
  \<^verbatim>\<open>connect()\<close> once the factory of attempt \<open>n\<close> has delivered its client: the client
  opens the transport, registering the three callbacks, and the promise it returns is
  stored.
\<close>

definition connect_resume :: "nat \<Rightarrow> LiveMusicHelper \<Rightarrow> LiveMusicHelper" where
  "connect_resume n s =
    (emit (LiveConnect n) s)
      \<lparr>sessionPromise := Some (LivePromise n),
       awaitingFactory := remove1 n (awaitingFactory s),
       connecting := connecting s @ [n],
       transports := transports s @ [n]\<rparr>"

definition getSession :: "LiveMusicHelper \<Rightarrow> promise \<times> LiveMusicHelper" where
  "getSession s =
    (case sessionPromise s of
       None \<Rightarrow> (let (p, s1) = connect_begin s in (p, s1\<lparr>sessionPromise := Some p\<rparr>))
     | Some p \<Rightarrow> (p, s))"

definition setPlaybackState :: "PlaybackState \<Rightarrow> LiveMusicHelper \<Rightarrow> LiveMusicHelper" where
  "setPlaybackState st s = emit (PlaybackStateChanged st) (s\<lparr>playbackState := st\<rparr>)"

subsection \<open>Scheduling\<close>

text \<open>
  \<^verbatim>\<open>processAudioChunks\<close> up to \<^verbatim>\<open>await decodeAudioData(...)\<close>. An empty batch makes
  \<^verbatim>\<open>audioChunks[0].data\<close> throw, which \<^verbatim>\<open>onmessage\<close> catches and logs.
\<close>

definition processAudioChunks_begin ::
  "AudioChunk list \<Rightarrow> LiveMusicHelper \<Rightarrow> LiveMusicHelper" where
  "processAudioChunks_begin cs s =
    (if playbackState s = Paused \<or> playbackState s = Stopped then s
     else (case cs of
             [] \<Rightarrow> s
           | c # _ \<Rightarrow> s\<lparr>decoding := decoding s @ [c]\<rparr>))"

text \<open>
  \<^verbatim>\<open>processAudioChunks\<close> after the decoder has delivered \<open>audioBuffer\<close>. The decoder
  (\<^verbatim>\<open>decode\<close>, \<^verbatim>\<open>decodeAudioData\<close> of \<^verbatim>\<open>./audio\<close>) is not among the sources: the buffer
  it delivers is an argument, and when it throws or rejects instead, this segment does
  not run (\<^verbatim>\<open>onmessage\<close> catches and logs). The two reads of
  \<^verbatim>\<open>audioContext.currentTime\<close> are in one synchronous segment and give one value.
\<close>

definition processAudioChunks_resume ::
  "AudioBuffer \<Rightarrow> LiveMusicHelper \<Rightarrow> LiveMusicHelper" where
  "processAudioChunks_resume audioBuffer s =
    (let s1 = emit (SourceCreated audioBuffer (outputNode s)) s;
         s2 = (if nextStartTime s1 = 0
               then (emit (SetTimeout (bufferTime * 1000))
                      (s1\<lparr>nextStartTime := currentTime s1 + bufferTime\<rparr>))
                      \<lparr>timers := Suc (timers s1)\<rparr>
               else s1)
     in if nextStartTime s2 < currentTime s2
        then (setPlaybackState Loading s2)\<lparr>nextStartTime := 0\<rparr>
        else (emit (SourceStart audioBuffer (nextStartTime s2)) s2)
               \<lparr>nextStartTime := nextStartTime s2 + duration audioBuffer\<rparr>)"

text \<open>The timer's callback: \<^verbatim>\<open>() => { this.setPlaybackState('playing') }\<close>.\<close>

definition timer_fired :: "LiveMusicHelper \<Rightarrow> LiveMusicHelper" where
  "timer_fired s = setPlaybackState Playing (s\<lparr>timers := timers s - 1\<rparr>)"

subsection \<open>Commands\<close>

definition activePrompts :: "LiveMusicHelper \<Rightarrow> Prompt list" where
  "activePrompts s =
    filter (\<lambda>p. ptext p \<notin> filteredPrompts s \<and> weight p \<noteq> 0) (map snd (prompts s))"

text \<open>
  \<^verbatim>\<open>pause()\<close>, \<^verbatim>\<open>stop()\<close>: an exception of the session's method is caught and only
  logged, so the segment continues the same way whether the call throws or not.
\<close>

definition pause :: "LiveMusicHelper \<Rightarrow> LiveMusicHelper" where
  "pause s =
    (let s1 = (case session s of None \<Rightarrow> s | Some n \<Rightarrow> emit (SessionCall n CtlPause) s);
         s2 = setPlaybackState Paused s1;
         s3 = emit (SetValueAtTime (outputNode s2) 1 (currentTime s2)) s2;
         s4 = emit (LinearRampToValueAtTime (outputNode s3) 0 (currentTime s3 + 0.1)) s3;
         s5 = s4\<lparr>nextStartTime := 0\<rparr>
     in (emit (CreateGain (gainNodes s5)) s5)
          \<lparr>outputNode := gainNodes s5, gainNodes := Suc (gainNodes s5)\<rparr>)"

definition stop :: "LiveMusicHelper \<Rightarrow> LiveMusicHelper" where
  "stop s =
    (let s1 = (case session s of None \<Rightarrow> s | Some n \<Rightarrow> emit (SessionCall n CtlStop) s);
         s2 = setPlaybackState Stopped s1;
         s3 = emit (SetValueAtTime (outputNode s2) 0 (currentTime s2)) s2;
         s4 = emit (LinearRampToValueAtTime (outputNode s3) 1 (currentTime s3 + 0.1)) s3
     in s4\<lparr>nextStartTime := 0, session := None, sessionPromise := None\<rparr>)"

text \<open>
  \<^verbatim>\<open>handleDisconnect()\<close>. The two gain calls stand in a \<^verbatim>\<open>try\<close> with an empty
  \<^verbatim>\<open>catch\<close>; they are the calls \<^verbatim>\<open>stop()\<close> makes unguarded, and are taken to return
  normally here as there.
\<close>

definition handleDisconnect :: "LiveMusicHelper \<Rightarrow> LiveMusicHelper" where
  "handleDisconnect s =
    (let s1 = s\<lparr>connectionError := True\<rparr>;
         s2 = setPlaybackState Stopped s1;
         s3 = emit (SetValueAtTime (outputNode s2) 0 (currentTime s2)) s2;
         s4 = emit (LinearRampToValueAtTime (outputNode s3) 1 (currentTime s3 + 0.1)) s3
     in s4\<lparr>nextStartTime := 0, session := None, sessionPromise := None\<rparr>)"

definition onerror :: "LiveMusicHelper \<Rightarrow> LiveMusicHelper" where
  "onerror s = emit (ErrorEvent ''Connection error, please restart audio.'') (handleDisconnect s)"

definition onclose :: "LiveMusicHelper \<Rightarrow> LiveMusicHelper" where
  "onclose s = emit (ErrorEvent ''Connection closed, please restart audio.'') (handleDisconnect s)"

definition onmessage :: "LiveMusicServerMessage \<Rightarrow> LiveMusicHelper \<Rightarrow> LiveMusicHelper" where
  "onmessage e s =
    (let s1 = (if setupComplete e then s\<lparr>connectionError := False\<rparr> else s);
         s2 = (case filteredPrompt e of
                 None \<Rightarrow> s1
               | Some fp \<Rightarrow>
                   emit (FilteredPromptEvent fp)
                     (s1\<lparr>filteredPrompts := insert (ftext fp) (filteredPrompts s1)\<rparr>))
     in (case audioChunks e of
           None \<Rightarrow> s2
         | Some cs \<Rightarrow> processAudioChunks_begin cs s2))"

text \<open>
  The function wrapped by \<^verbatim>\<open>throttle\<close>, up to \<^verbatim>\<open>await this.session.setWeightedPrompts\<close>,
  and its two continuations: the call returned, or it failed with message \<open>msg\<close>.
\<close>

definition setWeightedPrompts_begin ::
  "(string \<times> Prompt) list \<Rightarrow> LiveMusicHelper \<Rightarrow> LiveMusicHelper" where
  "setWeightedPrompts_begin ps s =
    (let s1 = s\<lparr>prompts := ps\<rparr> in
     if length (activePrompts s1) = 0
     then pause (emit (ErrorEvent ''There needs to be one active prompt to play.'') s1)
     else (case session s1 of
             None \<Rightarrow> s1
           | Some n \<Rightarrow>
               (emit (SessionCall n (CtlSetWeightedPrompts (activePrompts s1))) s1)
                 \<lparr>sending := Suc (sending s1)\<rparr>))"

definition setWeightedPrompts_done :: "LiveMusicHelper \<Rightarrow> LiveMusicHelper" where
  "setWeightedPrompts_done s = s\<lparr>sending := sending s - 1\<rparr>"

definition setWeightedPrompts_catch :: "string \<Rightarrow> LiveMusicHelper \<Rightarrow> LiveMusicHelper" where
  "setWeightedPrompts_catch msg s = pause (emit (ErrorEvent msg) (s\<lparr>sending := sending s - 1\<rparr>))"

text \<open>
  Modelled from the spec: \<^verbatim>\<open>throttle\<close> (\<^verbatim>\<open>./throttle\<close>) is not among the sources. The
  specification says the wrapped function is invoked at most once per 200 ms; whether
  a given call of the wrapper invokes it is the parameter \<open>fire\<close>.
\<close>

definition setWeightedPrompts ::
  "bool \<Rightarrow> (string \<times> Prompt) list \<Rightarrow> LiveMusicHelper \<Rightarrow> LiveMusicHelper" where
  "setWeightedPrompts fire ps s = (if fire then setWeightedPrompts_begin ps s else s)"

text \<open>
  \<^verbatim>\<open>play()\<close> in its three segments: up to \<^verbatim>\<open>await this.getSession()\<close>; from the
  moment the awaited promise \<open>p\<close> has delivered the session of its attempt up to
  \<^verbatim>\<open>await this.setWeightedPrompts(this.prompts)\<close>; and the rest. In the last,
  \<^verbatim>\<open>this.session\<close> may have been cleared meanwhile: \<^verbatim>\<open>this.session.play()\<close> then throws
  inside its \<^verbatim>\<open>try\<close>, which only logs.
\<close>

definition play_begin :: "LiveMusicHelper \<Rightarrow> LiveMusicHelper" where
  "play_begin s =
    (let s1 = setPlaybackState Loading s;
         (p, s2) = getSession s1
     in s2\<lparr>playsWaiting := playsWaiting s2 @ [p]\<rparr>)"

definition play_resume1 :: "promise \<Rightarrow> bool \<Rightarrow> LiveMusicHelper \<Rightarrow> LiveMusicHelper" where
  "play_resume1 p fire s =
    (let s1 = s\<lparr>session := Some (attempt_of p), playsWaiting := remove1 p (playsWaiting s)\<rparr>;
         s2 = setWeightedPrompts fire (prompts s1) s1
     in s2\<lparr>playsFlushing := Suc (playsFlushing s2)\<rparr>)"

definition play_resume2 :: "LiveMusicHelper \<Rightarrow> LiveMusicHelper" where
  "play_resume2 s =
    (let s0 = s\<lparr>playsFlushing := playsFlushing s - 1\<rparr>;
         s1 = emit ContextResume s0;
         s2 = (case session s1 of None \<Rightarrow> s1 | Some n \<Rightarrow> emit (SessionCall n CtlPlay) s1);
         s3 = emit (ConnectDestination (outputNode s2)) s2;
         s4 = (case extraDestination s3 of
                 None \<Rightarrow> s3
               | Some d \<Rightarrow> emit (ConnectExtra (outputNode s3) d) s3);
         s5 = emit (SetValueAtTime (outputNode s4) 0 (currentTime s4)) s4
     in emit (LinearRampToValueAtTime (outputNode s5) 1 (currentTime s5 + 0.1)) s5)"

definition playPause :: "LiveMusicHelper \<Rightarrow> LiveMusicHelper" where
  "playPause s =
    (case playbackState s of
       Playing \<Rightarrow> pause s
     | Paused \<Rightarrow> play_begin s
     | Stopped \<Rightarrow> play_begin s
     | Loading \<Rightarrow> stop s)"

text \<open>
  \<^verbatim>\<open>this.prompts = prompts\<close> keeps the caller's Map, not a copy, and the Prompt objects
  in it stay the caller's too. The user interface (\<^verbatim>\<open>handlePromptChanged\<close> of the prompt
  grid) assigns \<^verbatim>\<open>text\<close>, \<^verbatim>\<open>weight\<close> and \<^verbatim>\<open>cc\<close> of the Prompt object of an id in place,
  and only then hands a new Map with the same objects to \<^verbatim>\<open>setWeightedPrompts\<close>. Where
  the stored Map holds that object, the stored snapshot changes with it, whether or
  not the call that follows takes effect. \<open>promptChanged\<close> is that assignment as the
  helper sees it.
\<close>

definition promptChanged ::
  "string \<Rightarrow> string \<Rightarrow> real \<Rightarrow> int \<Rightarrow> LiveMusicHelper \<Rightarrow> LiveMusicHelper" where
  "promptChanged pid t w c s =
    s\<lparr>prompts :=
        map (\<lambda>(k, p). if k = pid then (k, p\<lparr>ptext := t, weight := w, cc := c\<rparr>) else (k, p))
          (prompts s)\<rparr>"

subsection \<open>The event loop\<close>

text \<open>
  Everything that can run next: a call from the user interface or its change of a
  Prompt object, a callback of a transport, the settling of a pending promise, the timer, or the audio clock moving
  on while nothing runs. A continuation can run only when the operation it waits for
  is pending; the clock never runs backwards; a decoded buffer has at least one frame,
  so a positive duration. When a pending timer fires is left open.
\<close>

datatype event =
    UPlay
  | UPause
  | UStop
  | UPlayPause
  | USetWeightedPrompts bool "(string \<times> Prompt) list"
  | UPromptChanged string string real int
  | FactoryResolved nat
  | FactoryRejected nat
  | LiveResolved nat
  | LiveRejected nat
  | OnMessage nat LiveMusicServerMessage
  | OnError nat
  | OnClose nat
  | DecodeResolved AudioChunk AudioBuffer
  | DecodeRejected AudioChunk
  | TimerFired
  | SendResolved
  | SendRejected string
  | PlayResume1 promise bool
  | PlayResume2
  | Advance real

fun enabled :: "event \<Rightarrow> LiveMusicHelper \<Rightarrow> bool" where
  "enabled (FactoryResolved n) s = (n \<in> set (awaitingFactory s))"
| "enabled (FactoryRejected n) s = (n \<in> set (awaitingFactory s))"
| "enabled (LiveResolved n) s = (n \<in> set (connecting s))"
| "enabled (LiveRejected n) s = (n \<in> set (connecting s))"
| "enabled (OnMessage n e) s = (n \<in> set (transports s))"
| "enabled (OnError n) s = (n \<in> set (transports s))"
| "enabled (OnClose n) s = (n \<in> set (transports s))"
| "enabled (DecodeResolved c b) s = (c \<in> set (decoding s) \<and> 0 < duration b)"
| "enabled (DecodeRejected c) s = (c \<in> set (decoding s))"
| "enabled TimerFired s = (0 < timers s)"
| "enabled SendResolved s = (0 < sending s)"
| "enabled (SendRejected msg) s = (0 < sending s)"
| "enabled (PlayResume1 p fire) s =
     (p \<in> set (playsWaiting s) \<and> attempt_of p \<in> set (opened s))"
| "enabled PlayResume2 s = (0 < playsFlushing s)"
| "enabled (Advance dt) s = (0 \<le> dt)"
| "enabled _ s = True"

fun step :: "event \<Rightarrow> LiveMusicHelper \<Rightarrow> LiveMusicHelper" where
  "step UPlay s = play_begin s"
| "step UPause s = pause s"
| "step UStop s = stop s"
| "step UPlayPause s = playPause s"
| "step (USetWeightedPrompts fire ps) s = setWeightedPrompts fire ps s"
| "step (UPromptChanged pid t w c) s = promptChanged pid t w c s"
| "step (FactoryResolved n) s = connect_resume n s"
| "step (FactoryRejected n) s = s\<lparr>awaitingFactory := remove1 n (awaitingFactory s)\<rparr>"
| "step (LiveResolved n) s =
     s\<lparr>connecting := remove1 n (connecting s), opened := opened s @ [n]\<rparr>"
| "step (LiveRejected n) s = s\<lparr>connecting := remove1 n (connecting s)\<rparr>"
| "step (OnMessage n e) s = onmessage e s"
| "step (OnError n) s = onerror s"
| "step (OnClose n) s = (onclose s)\<lparr>transports := remove1 n (transports s)\<rparr>"
| "step (DecodeResolved c b) s =
     processAudioChunks_resume b (s\<lparr>decoding := remove1 c (decoding s)\<rparr>)"
| "step (DecodeRejected c) s = s\<lparr>decoding := remove1 c (decoding s)\<rparr>"
| "step TimerFired s = timer_fired s"
| "step SendResolved s = setWeightedPrompts_done s"
| "step (SendRejected msg) s = setWeightedPrompts_catch msg s"
| "step (PlayResume1 p fire) s = play_resume1 p fire s"
| "step PlayResume2 s = play_resume2 s"
| "step (Advance dt) s = s\<lparr>currentTime := currentTime s + dt\<rparr>"

inductive reachable :: "LiveMusicHelper \<Rightarrow> bool" where
  reachable_initial: "reachable initial"
| reachable_step: "reachable s \<Longrightarrow> enabled e s \<Longrightarrow> reachable (step e s)"

text \<open>Running a list of events from a state; \<open>None\<close> when one of them cannot happen.\<close>

fun run :: "event list \<Rightarrow> LiveMusicHelper \<Rightarrow> LiveMusicHelper option" where
  "run [] s = Some s"
| "run (e # es) s = (if enabled e s then run es (step e s) else None)"

subsection \<open>Reading a trace\<close>

text \<open>The start times handed to \<^verbatim>\<open>source.start\<close>, in order.\<close>

fun starts :: "effect list \<Rightarrow> real list" where
  "starts [] = []"
| "starts (SourceStart b t # es) = t # starts es"
| "starts (e # es) = starts es"

text \<open>The calls made on remote sessions, and the messages of the error events.\<close>

fun sessionCalls :: "effect list \<Rightarrow> (nat \<times> control) list" where
  "sessionCalls [] = []"
| "sessionCalls (SessionCall n c # es) = (n, c) # sessionCalls es"
| "sessionCalls (e # es) = sessionCalls es"

fun errors :: "effect list \<Rightarrow> string list" where
  "errors [] = []"
| "errors (ErrorEvent m # es) = m # errors es"
| "errors (e # es) = errors es"

text \<open>The factory calls, by attempt.\<close>

fun factoryCalls :: "effect list \<Rightarrow> nat list" where
  "factoryCalls [] = []"
| "factoryCalls (AiFactory n # es) = n # factoryCalls es"
| "factoryCalls (e # es) = factoryCalls es"

text \<open>The clock moving on by \<open>dt\<close> seconds.\<close>

definition advance :: "real \<Rightarrow> LiveMusicHelper \<Rightarrow> LiveMusicHelper" where
  "advance dt s = s\<lparr>currentTime := currentTime s + dt\<rparr>"

subsection \<open>Scheduling with the sums of the code\<close>

text \<open>
  \<^verbatim>\<open>+\<close> and \<^verbatim>\<open>+=\<close> on JavaScript numbers give the binary64 value nearest to the exact
  sum of their two binary64 arguments, ties to the even significand. \<open>ilog2 x\<close> is the exponent of the binade of a
  positive \<open>x\<close> (\<open>2 powi ilog2 x \<le> x < 2 powi (ilog2 x + 1)\<close>), \<open>double x\<close> the nearest
  multiple of that binade's spacing. The exponent range is not bounded: no time in
  seconds comes near the largest or the smallest binary64 value.
\<close>

definition ilog2 :: "real \<Rightarrow> int" where
  "ilog2 x = (if 1 \<le> x then bitlen \<lfloor>x\<rfloor> - 1 else - bitlen (\<lceil>1 / x\<rceil> - 1))"

definition round_even :: "real \<Rightarrow> int" where
  "round_even r =
    (let f = \<lfloor>r\<rfloor>; d = r - of_int f
     in if d < 1 / 2 then f else if 1 / 2 < d then f + 1 else if even f then f else f + 1)"

definition double :: "real \<Rightarrow> real" where
  "double x =
    (if x = 0 then 0
     else (let q = 2 powi (ilog2 \<bar>x\<bar> - 52) in q * of_int (round_even (x / q))))"

definition fadd :: "real \<Rightarrow> real \<Rightarrow> real" where
  "fadd x y = double (x + y)"

text \<open>
  The second segment of \<^verbatim>\<open>processAudioChunks\<close> again, statement for statement, with
  \<^verbatim>\<open>this.audioContext.currentTime + this.bufferTime\<close> and
  \<^verbatim>\<open>this.nextStartTime += audioBuffer.duration\<close> rounded (\<^verbatim>\<open>this.bufferTime * 1000\<close> is
  exact).
\<close>

definition processAudioChunks_resume64 ::
  "AudioBuffer \<Rightarrow> LiveMusicHelper \<Rightarrow> LiveMusicHelper" where
  "processAudioChunks_resume64 audioBuffer s =
    (let s1 = emit (SourceCreated audioBuffer (outputNode s)) s;
         s2 = (if nextStartTime s1 = 0
               then (emit (SetTimeout (bufferTime * 1000))
                      (s1\<lparr>nextStartTime := fadd (currentTime s1) bufferTime\<rparr>))
                      \<lparr>timers := Suc (timers s1)\<rparr>
               else s1)
     in if nextStartTime s2 < currentTime s2
        then (setPlaybackState Loading s2)\<lparr>nextStartTime := 0\<rparr>
        else (emit (SourceStart audioBuffer (nextStartTime s2)) s2)
               \<lparr>nextStartTime := fadd (nextStartTime s2) (duration audioBuffer)\<rparr>)"





subsection \<open>Runs and examples\<close>

text \<open>Any list of events, enabled or not.\<close>

fun exec :: "event list \<Rightarrow> LiveMusicHelper \<Rightarrow> LiveMusicHelper" where
  "exec [] s = s"
| "exec (e # es) s = exec es (step e s)"




text \<open>Three prompts and three messages used in the examples.\<close>

definition bossa :: Prompt where
  "bossa = \<lparr>promptId = ''prompt-0'', ptext = ''Bossa Nova'', weight = 1, cc = 0, color = ''#9900ff''\<rparr>"

definition bossa_muted :: Prompt where
  "bossa_muted = bossa\<lparr>weight := 0\<rparr>"


definition chunk :: AudioChunk where
  "chunk = \<lparr>data = Some ''AAAA''\<rparr>"

definition audio_message :: LiveMusicServerMessage where
  "audio_message = \<lparr>setupComplete = False, filteredPrompt = None, audioChunks = Some [chunk]\<rparr>"

definition filtered_message :: LiveMusicServerMessage where
  "filtered_message =
    \<lparr>setupComplete = False,
     filteredPrompt = Some \<lparr>ftext = ''banned'', filteredReason = ''policy''\<rparr>,
     audioChunks = None\<rparr>"

text \<open>
  A session brought up to the point where audio may arrive: the prompt is set,
  \<^verbatim>\<open>play()\<close> runs through its three segments while attempt 0 connects.
\<close>

definition startup :: "event list" where
  "startup =
    [USetWeightedPrompts True [(''prompt-0'', bossa)], UPlay, FactoryResolved 0, LiveResolved 0,
     PlayResume1 (ConnectPromise 0) True, SendResolved, PlayResume2]"

text \<open>
  The states after that, and after a first fragment of one second has then been
  decoded and scheduled.
\<close>

definition connected :: LiveMusicHelper where
  "connected = exec startup initial"

definition first_fragment :: "event list" where
  "first_fragment = [OnMessage 0 audio_message, DecodeResolved chunk \<lparr>duration = 1\<rparr>]"

definition buffering :: LiveMusicHelper where
  "buffering = exec (startup @ first_fragment) initial"





section \<open>Properties\<close>

subsection \<open>Auxiliary facts\<close>

lemma run_reachable: "reachable s \<Longrightarrow> run es s = Some s' \<Longrightarrow> reachable s'"
  by (induction es arbitrary: s) (auto intro: reachable_step split: if_splits)

lemma starts_append: "starts (xs @ ys) = starts xs @ starts ys"
  by (induction xs rule: starts.induct) auto

lemma sessionCalls_append: "sessionCalls (xs @ ys) = sessionCalls xs @ sessionCalls ys"
  by (induction xs rule: sessionCalls.induct) auto

lemma errors_append: "errors (xs @ ys) = errors xs @ errors ys"
  by (induction xs rule: errors.induct) auto

lemma factoryCalls_append: "factoryCalls (xs @ ys) = factoryCalls xs @ factoryCalls ys"
  by (induction xs rule: factoryCalls.induct) auto

lemmas handler_defs =
  play_begin_def pause_def stop_def playPause_def setWeightedPrompts_def
  setWeightedPrompts_begin_def setWeightedPrompts_done_def setWeightedPrompts_catch_def
  connect_resume_def connect_begin_def getSession_def onmessage_def onerror_def onclose_def
  handleDisconnect_def processAudioChunks_begin_def processAudioChunks_resume_def
  timer_fired_def play_resume1_def play_resume2_def setPlaybackState_def emit_def
  bufferTime_def advance_def promptChanged_def

text \<open>The three ways through the second segment of \<^verbatim>\<open>processAudioChunks\<close>.\<close>

lemma resume_underrun:
  "nextStartTime s \<noteq> 0 \<Longrightarrow> nextStartTime s < currentTime s \<Longrightarrow>
   processAudioChunks_resume b s =
     s\<lparr>playbackState := Loading,
       trace := trace s @ [SourceCreated b (outputNode s), PlaybackStateChanged Loading],
       nextStartTime := 0\<rparr>"
  by (simp add: processAudioChunks_resume_def emit_def setPlaybackState_def Let_def)

lemma resume_anchor:
  "nextStartTime s = 0 \<Longrightarrow>
   processAudioChunks_resume b s =
     s\<lparr>trace := trace s @ [SourceCreated b (outputNode s), SetTimeout (bufferTime * 1000),
                           SourceStart b (currentTime s + bufferTime)],
       timers := Suc (timers s),
       nextStartTime := currentTime s + bufferTime + duration b\<rparr>"
  by (simp add: processAudioChunks_resume_def emit_def Let_def bufferTime_def)

lemma begin_accepts:
  "playbackState s = Playing \<or> playbackState s = Loading \<Longrightarrow>
   processAudioChunks_begin (c # cs) s = s\<lparr>decoding := decoding s @ [c]\<rparr>"
  by (auto simp: processAudioChunks_begin_def)









text \<open>
  Where the sums it computes are exact, the segment with rounded sums is the segment
  of the event loop.
\<close>

lemma resume64_exact:
  assumes "fadd (currentTime s) bufferTime = currentTime s + bufferTime"
    and "fadd (nextStartTime s) (duration b) = nextStartTime s + duration b"
    and "fadd (currentTime s + bufferTime) (duration b) = currentTime s + bufferTime + duration b"
  shows "processAudioChunks_resume64 b s = processAudioChunks_resume b s"
  using assms
  by (simp add: processAudioChunks_resume64_def processAudioChunks_resume_def emit_def Let_def)



text \<open>The clock and the schedule never go below zero.\<close>

lemma nonneg_step:
  "0 \<le> nextStartTime s \<and> 0 \<le> currentTime s \<Longrightarrow> enabled e s \<Longrightarrow>
   0 \<le> nextStartTime (step e s) \<and> 0 \<le> currentTime (step e s)"
  by (cases e)
    (simp_all add: handler_defs Let_def
      split: option.splits PlaybackState.splits list.splits prod.splits)

lemma reachable_nonneg: "reachable s \<Longrightarrow> 0 \<le> nextStartTime s \<and> 0 \<le> currentTime s"
proof (induction rule: reachable.induct)
  case reachable_initial
  show ?case by (simp add: initial_def)
next
  case (reachable_step s e)
  then show ?case using nonneg_step by blast
qed

lemma resume_ahead:
  "0 \<le> duration b \<Longrightarrow>
   nextStartTime (processAudioChunks_resume b s) = 0 \<or>
   currentTime (processAudioChunks_resume b s) \<le> nextStartTime (processAudioChunks_resume b s)"
  by (auto simp: processAudioChunks_resume_def emit_def setPlaybackState_def Let_def bufferTime_def)

text \<open>What \<^verbatim>\<open>pause()\<close> leaves behind.\<close>

lemma pause_trace:
  "trace (pause s) =
     trace s @ (case session s of None \<Rightarrow> [] | Some n \<Rightarrow> [SessionCall n CtlPause]) @
     [PlaybackStateChanged Paused, SetValueAtTime (outputNode s) 1 (currentTime s),
      LinearRampToValueAtTime (outputNode s) 0 (currentTime s + 0.1), CreateGain (gainNodes s)]"
  by (simp add: pause_def setPlaybackState_def emit_def Let_def split: option.splits)

lemma pause_fields:
  "playbackState (pause s) = Paused \<and> nextStartTime (pause s) = 0 \<and>
   prompts (pause s) = prompts s \<and> timers (pause s) = timers s \<and>
   sending (pause s) = sending s \<and> session (pause s) = session s \<and>
   filteredPrompts (pause s) = filteredPrompts s"
  by (simp add: pause_def setPlaybackState_def emit_def Let_def split: option.splits)

lemma filteredPrompts_step: "filteredPrompts s \<subseteq> filteredPrompts (step e s)"
  by (cases e)
    (auto simp: handler_defs Let_def
      split: option.splits PlaybackState.splits list.splits prod.splits if_splits)

lemma filteredPrompts_exec: "filteredPrompts s \<subseteq> filteredPrompts (exec es s)"
proof (induction es arbitrary: s)
  case Nil
  show ?case by simp
next
  case (Cons e es)
  have "filteredPrompts s \<subseteq> filteredPrompts (step e s)" by (rule filteredPrompts_step)
  also have "\<dots> \<subseteq> filteredPrompts (exec es (step e s))" by (rule Cons.IH)
  finally show ?case by simp
qed

lemma run_append:
  "run (es @ es') s = (case run es s of None \<Rightarrow> None | Some s' \<Rightarrow> run es' s')"
  by (induction es arbitrary: s) auto

lemma connected_eq:
  "connected =
    \<lparr>session = Some 0, sessionPromise = Some (LivePromise 0), connectionError = True,
          filteredPrompts = {}, nextStartTime = 0, playbackState = Loading,
          prompts = [(''prompt-0'', bossa)], outputNode = 0, extraDestination = None,
          currentTime = 0,
          trace = [PlaybackStateChanged Loading, AiFactory 0, LiveConnect 0,
                   SessionCall 0 (CtlSetWeightedPrompts [bossa]), ContextResume,
                   SessionCall 0 CtlPlay, ConnectDestination 0, SetValueAtTime 0 0 0,
                   LinearRampToValueAtTime 0 1 (1 / 10)],
          attempts = 1, gainNodes = 1, awaitingFactory = [], connecting = [], opened = [0],
          transports = [0], decoding = [], timers = 0, sending = 0, playsWaiting = [],
          playsFlushing = 0\<rparr>"
  by (simp add: connected_def startup_def initial_def bossa_def handler_defs activePrompts_def
      Let_def)

lemma startup_run: "run startup initial = Some connected"
  unfolding connected_eq
  by (simp add: startup_def initial_def bossa_def handler_defs activePrompts_def Let_def)

lemma exec_append: "exec (es @ es') s = exec es' (exec es s)"
  by (induction es arbitrary: s) auto

lemma buffering_eq:
  "buffering =
    connected
      \<lparr>trace := trace connected @
         [SourceCreated \<lparr>duration = 1\<rparr> 0, SetTimeout 2000, SourceStart \<lparr>duration = 1\<rparr> 2],
       timers := 1, nextStartTime := 3\<rparr>"
  unfolding buffering_def exec_append connected_def[symmetric]
  by (simp add: connected_eq first_fragment_def audio_message_def chunk_def handler_defs Let_def)

lemma first_fragment_run: "run (startup @ first_fragment) initial = Some buffering"
  unfolding run_append startup_run buffering_eq
  by (simp add: connected_eq first_fragment_def audio_message_def chunk_def handler_defs Let_def)

lemma connected_reachable: "reachable connected"
  using run_reachable[OF reachable_initial startup_run] .

lemma buffering_reachable: "reachable buffering"
  using run_reachable[OF reachable_initial first_fragment_run] .

lemma run_case_reachable:
  "(case run es initial of None \<Rightarrow> False | Some s \<Rightarrow> P s) \<Longrightarrow>
   (case run es initial of None \<Rightarrow> False | Some s \<Rightarrow> reachable s \<and> P s)"
  by (auto split: option.splits intro: run_reachable[OF reachable_initial])


subsection \<open>Scheduling on the timeline\<close>




text \<open>
  C2. A fragment processed when the anchored schedule has fallen behind the device
  clock (\<open>nextStartTime \<noteq> 0\<close> and \<open>nextStartTime < currentTime\<close>) sets the state to
  \<open>Loading\<close>, resets \<open>nextStartTime\<close> to 0 and starts no buffer. The next fragment,
  \<open>dt\<close> seconds later, is accepted, arms the timer and is started at the device time
  of its processing plus \<open>bufferTime\<close>, from where the timeline continues.
\<close>

theorem underrun_drops_and_reanchors:
  assumes "nextStartTime s \<noteq> 0" and "nextStartTime s < currentTime s"
  shows
    "processAudioChunks_resume b s =
       s\<lparr>playbackState := Loading,
         trace := trace s @ [SourceCreated b (outputNode s), PlaybackStateChanged Loading],
         nextStartTime := 0\<rparr> \<and>
     starts (trace (processAudioChunks_resume b s)) = starts (trace s) \<and>
     processAudioChunks_begin (c # cs) (advance dt (processAudioChunks_resume b s)) =
       (advance dt (processAudioChunks_resume b s))\<lparr>decoding := decoding s @ [c]\<rparr> \<and>
     starts (trace (processAudioChunks_resume b' (advance dt (processAudioChunks_resume b s)))) =
       starts (trace s) @ [currentTime s + dt + bufferTime] \<and>
     nextStartTime (processAudioChunks_resume b' (advance dt (processAudioChunks_resume b s))) =
       currentTime s + dt + bufferTime + duration b' \<and>
     timers (processAudioChunks_resume b' (advance dt (processAudioChunks_resume b s))) =
       Suc (timers s)"
proof -
  let ?u = "processAudioChunks_resume b s"
  have u: "?u = s\<lparr>playbackState := Loading,
         trace := trace s @ [SourceCreated b (outputNode s), PlaybackStateChanged Loading],
         nextStartTime := 0\<rparr>"
    by (rule resume_underrun[OF assms])
  have acc: "processAudioChunks_begin (c # cs) (advance dt ?u) =
       (advance dt ?u)\<lparr>decoding := decoding s @ [c]\<rparr>"
    using begin_accepts[of "advance dt ?u" c cs] by (simp add: u advance_def)
  have z: "nextStartTime (advance dt ?u) = 0"
    by (simp add: u advance_def)
  show ?thesis
    unfolding resume_anchor[OF z] acc
    by (simp add: u advance_def starts_append)
qed

theorem underrun_drops_and_reanchors_witness:
  "nextStartTime (advance 4 buffering) = 3 \<and> currentTime (advance 4 buffering) = 4 \<and>
   playbackState (processAudioChunks_resume \<lparr>duration = 1\<rparr> (advance 4 buffering)) = Loading \<and>
   nextStartTime (processAudioChunks_resume \<lparr>duration = 1\<rparr> (advance 4 buffering)) = 0 \<and>
   starts (trace (processAudioChunks_resume \<lparr>duration = 1\<rparr> (advance 4 buffering))) = [2] \<and>
   starts (trace (processAudioChunks_resume \<lparr>duration = 2\<rparr>
     (advance (1 / 2) (processAudioChunks_resume \<lparr>duration = 1\<rparr> (advance 4 buffering))))) =
     [2, 13 / 2] \<and>
   nextStartTime (processAudioChunks_resume \<lparr>duration = 2\<rparr>
     (advance (1 / 2) (processAudioChunks_resume \<lparr>duration = 1\<rparr> (advance 4 buffering)))) =
     17 / 2"
proof -
  have f: "nextStartTime (advance 4 buffering) = 3" "currentTime (advance 4 buffering) = 4"
    "starts (trace (advance 4 buffering)) = [2]"
    by (simp_all add: buffering_eq connected_eq advance_def)
  have h: "nextStartTime (advance 4 buffering) \<noteq> 0"
    "nextStartTime (advance 4 buffering) < currentTime (advance 4 buffering)"
    by (simp_all add: f)
  note t = underrun_drops_and_reanchors[OF h, of "\<lparr>duration = 1\<rparr>" chunk "[]" "1 / 2"
      "\<lparr>duration = 2\<rparr>"]
  have dropped:
    "playbackState (processAudioChunks_resume \<lparr>duration = 1\<rparr> (advance 4 buffering)) = Loading"
    "nextStartTime (processAudioChunks_resume \<lparr>duration = 1\<rparr> (advance 4 buffering)) = 0"
    using conjunct1[OF t] by simp_all
  have anchored:
    "starts (trace (processAudioChunks_resume \<lparr>duration = 1\<rparr> (advance 4 buffering))) = [2]"
    "starts (trace (processAudioChunks_resume \<lparr>duration = 2\<rparr>
       (advance (1 / 2) (processAudioChunks_resume \<lparr>duration = 1\<rparr> (advance 4 buffering))))) =
       [2, 13 / 2]"
    "nextStartTime (processAudioChunks_resume \<lparr>duration = 2\<rparr>
       (advance (1 / 2) (processAudioChunks_resume \<lparr>duration = 1\<rparr> (advance 4 buffering)))) =
       17 / 2"
    using conjunct2[OF t] f by (simp_all add: bufferTime_def)
  from f dropped anchored show ?thesis by blast
qed

subsection \<open>The set of filtered prompt texts\<close>

text \<open>
  C3, as amended. The set of filtered prompt texts is not reset on reconnect:
  \<^verbatim>\<open>stop()\<close>, the disconnect handler with both of its callbacks, and the two segments
  of \<^verbatim>\<open>connect()\<close> leave it as it is; a message with a filtered prompt adds that text;
  and no event, hence no sequence of events, removes an entry. So a connection made
  after \<^verbatim>\<open>stop()\<close> or a transport failure starts with the texts collected so far.
\<close>

theorem filteredPrompts_only_grow:
  "filteredPrompts (stop s) = filteredPrompts s \<and>
   filteredPrompts (handleDisconnect s) = filteredPrompts s \<and>
   filteredPrompts (onerror s) = filteredPrompts s \<and>
   filteredPrompts (onclose s) = filteredPrompts s \<and>
   filteredPrompts (snd (connect_begin s)) = filteredPrompts s \<and>
   filteredPrompts (connect_resume n s) = filteredPrompts s \<and>
   filteredPrompts (snd (getSession s)) = filteredPrompts s \<and>
   filteredPrompts (onmessage m s) =
     (case filteredPrompt m of
        None \<Rightarrow> filteredPrompts s
      | Some fp \<Rightarrow> insert (ftext fp) (filteredPrompts s)) \<and>
   filteredPrompts s \<subseteq> filteredPrompts (step e s) \<and>
   filteredPrompts s \<subseteq> filteredPrompts (exec es s)"
proof -
  have "filteredPrompts (onmessage m s) =
     (case filteredPrompt m of
        None \<Rightarrow> filteredPrompts s
      | Some fp \<Rightarrow> insert (ftext fp) (filteredPrompts s))"
    by (simp add: onmessage_def processAudioChunks_begin_def emit_def Let_def
        split: option.splits list.splits)
  moreover have "filteredPrompts (stop s) = filteredPrompts s"
    by (simp add: stop_def setPlaybackState_def emit_def Let_def split: option.splits)
  moreover have "filteredPrompts (handleDisconnect s) = filteredPrompts s"
    by (simp add: handleDisconnect_def setPlaybackState_def emit_def Let_def)
  moreover have "filteredPrompts (onerror s) = filteredPrompts s"
    by (simp add: onerror_def handleDisconnect_def setPlaybackState_def emit_def Let_def)
  moreover have "filteredPrompts (onclose s) = filteredPrompts s"
    by (simp add: onclose_def handleDisconnect_def setPlaybackState_def emit_def Let_def)
  moreover have "filteredPrompts (snd (connect_begin s)) = filteredPrompts s"
    by (simp add: connect_begin_def emit_def Let_def)
  moreover have "filteredPrompts (connect_resume n s) = filteredPrompts s"
    by (simp add: connect_resume_def emit_def)
  moreover have "filteredPrompts (snd (getSession s)) = filteredPrompts s"
    by (simp add: getSession_def connect_begin_def emit_def Let_def split: option.splits)
  ultimately show ?thesis
    using filteredPrompts_step[of s e] filteredPrompts_exec[of s es] by blast
qed

theorem filteredPrompts_only_grow_witness:
  "filteredPrompts (onmessage filtered_message initial) = {''banned''} \<and>
   filteredPrompts (stop (onmessage filtered_message initial)) = {''banned''} \<and>
   filteredPrompts (onclose (onmessage filtered_message initial)) = {''banned''} \<and>
   filteredPrompts (connect_resume 1 (snd (getSession (stop (onmessage filtered_message initial))))) =
     {''banned''}"
proof -
  have i: "filteredPrompts initial = {}"
      "filteredPrompt filtered_message = Some \<lparr>ftext = ''banned'', filteredReason = ''policy''\<rparr>"
    by (simp_all add: initial_def filtered_message_def)
  have m: "filteredPrompts (onmessage filtered_message initial) = {''banned''}"
    using filteredPrompts_only_grow[of initial _ filtered_message] i by simp
  have s: "filteredPrompts (stop (onmessage filtered_message initial)) = {''banned''}"
    "filteredPrompts (onclose (onmessage filtered_message initial)) = {''banned''}"
    using filteredPrompts_only_grow[of "onmessage filtered_message initial"] m by simp_all
  have g: "filteredPrompts (snd (getSession (stop (onmessage filtered_message initial)))) =
      {''banned''}"
    using filteredPrompts_only_grow[of "stop (onmessage filtered_message initial)"] s(1) by simp
  have "filteredPrompts
      (connect_resume 1 (snd (getSession (stop (onmessage filtered_message initial))))) =
      {''banned''}"
    using filteredPrompts_only_grow[of
        "snd (getSession (stop (onmessage filtered_message initial)))" 1] g
    by simp
  with m s show ?thesis by blast
qed

text \<open>
  C3 as stated fails: a text filtered during attempt 0 is still in the set when
  attempt 1 has connected, whether the first connection ended by \<^verbatim>\<open>stop()\<close> or by
  the transport closing.
\<close>

theorem filteredPrompts_reset_counterexample:
  "(case run [UPlay, FactoryResolved 0, OnMessage 0 filtered_message, UStop,
              UPlay, FactoryResolved 1] initial of
      None \<Rightarrow> False
    | Some s \<Rightarrow>
        sessionPromise s = Some (LivePromise 1) \<and> transports s = [0, 1] \<and>
        filteredPrompts s = {''banned''} \<and> filteredPrompts s \<noteq> {}) \<and>
   (case run [UPlay, FactoryResolved 0, OnMessage 0 filtered_message, OnClose 0,
              UPlay, FactoryResolved 1] initial of
      None \<Rightarrow> False
    | Some s \<Rightarrow>
        sessionPromise s = Some (LivePromise 1) \<and> transports s = [1] \<and>
        filteredPrompts s = {''banned''} \<and> filteredPrompts s \<noteq> {})"
  by (simp add: initial_def filtered_message_def handler_defs Let_def)

subsection \<open>Transport failure\<close>

text \<open>
  C4. The error callback and the close callback of a transport both run
  \<^verbatim>\<open>handleDisconnect()\<close> and then dispatch an error event. The handler sets the state
  to \<open>Stopped\<close> (dispatching the change), sets the gain to 0 at the current device time
  and ramps it to 1 at that time plus 0.1, resets \<open>nextStartTime\<close> to 0 and clears
  \<open>session\<close> and \<open>sessionPromise\<close>. Nothing else reaches the trace: no method of a
  session is called.
\<close>

theorem transport_failure_disconnects:
  "step (OnError n) s = onerror s \<and>
   step (OnClose n) s = (onclose s)\<lparr>transports := remove1 n (transports s)\<rparr> \<and>
   onerror s = emit (ErrorEvent ''Connection error, please restart audio.'') (handleDisconnect s) \<and>
   onclose s = emit (ErrorEvent ''Connection closed, please restart audio.'') (handleDisconnect s) \<and>
   handleDisconnect s =
     s\<lparr>connectionError := True, playbackState := Stopped,
       trace := trace s @
         [PlaybackStateChanged Stopped, SetValueAtTime (outputNode s) 0 (currentTime s),
          LinearRampToValueAtTime (outputNode s) 1 (currentTime s + 0.1)],
       nextStartTime := 0, session := None, sessionPromise := None\<rparr> \<and>
   trace (onerror s) = trace s @
     [PlaybackStateChanged Stopped, SetValueAtTime (outputNode s) 0 (currentTime s),
      LinearRampToValueAtTime (outputNode s) 1 (currentTime s + 0.1),
      ErrorEvent ''Connection error, please restart audio.''] \<and>
   trace (onclose s) = trace s @
     [PlaybackStateChanged Stopped, SetValueAtTime (outputNode s) 0 (currentTime s),
      LinearRampToValueAtTime (outputNode s) 1 (currentTime s + 0.1),
      ErrorEvent ''Connection closed, please restart audio.''] \<and>
   sessionCalls (trace (onerror s)) = sessionCalls (trace s) \<and>
   sessionCalls (trace (onclose s)) = sessionCalls (trace s) \<and>
   playbackState (onerror s) = Stopped \<and> playbackState (onclose s) = Stopped \<and>
   nextStartTime (onerror s) = 0 \<and> nextStartTime (onclose s) = 0 \<and>
   session (onerror s) = None \<and> session (onclose s) = None \<and>
   sessionPromise (onerror s) = None \<and> sessionPromise (onclose s) = None"
proof -
  have h: "handleDisconnect s =
     s\<lparr>connectionError := True, playbackState := Stopped,
       trace := trace s @
         [PlaybackStateChanged Stopped, SetValueAtTime (outputNode s) 0 (currentTime s),
          LinearRampToValueAtTime (outputNode s) 1 (currentTime s + 0.1)],
       nextStartTime := 0, session := None, sessionPromise := None\<rparr>"
    by (simp add: handleDisconnect_def setPlaybackState_def emit_def Let_def)
  have e: "onerror s =
      emit (ErrorEvent ''Connection error, please restart audio.'') (handleDisconnect s)"
    by (simp add: onerror_def)
  have c: "onclose s =
      emit (ErrorEvent ''Connection closed, please restart audio.'') (handleDisconnect s)"
    by (simp add: onclose_def)
  have te: "trace (onerror s) = trace s @
     [PlaybackStateChanged Stopped, SetValueAtTime (outputNode s) 0 (currentTime s),
      LinearRampToValueAtTime (outputNode s) 1 (currentTime s + 0.1),
      ErrorEvent ''Connection error, please restart audio.'']"
    by (simp add: e h emit_def)
  have tc: "trace (onclose s) = trace s @
     [PlaybackStateChanged Stopped, SetValueAtTime (outputNode s) 0 (currentTime s),
      LinearRampToValueAtTime (outputNode s) 1 (currentTime s + 0.1),
      ErrorEvent ''Connection closed, please restart audio.'']"
    by (simp add: c h emit_def)
  have se: "sessionCalls (trace (onerror s)) = sessionCalls (trace s)"
    by (simp add: te sessionCalls_append)
  have sc: "sessionCalls (trace (onclose s)) = sessionCalls (trace s)"
    by (simp add: tc sessionCalls_append)
  have fe: "playbackState (onerror s) = Stopped" "nextStartTime (onerror s) = 0"
    "session (onerror s) = None" "sessionPromise (onerror s) = None"
    by (simp_all add: e h emit_def)
  have fc: "playbackState (onclose s) = Stopped" "nextStartTime (onclose s) = 0"
    "session (onclose s) = None" "sessionPromise (onclose s) = None"
    by (simp_all add: c h emit_def)
  have st: "step (OnError n) s = onerror s"
    "step (OnClose n) s = (onclose s)\<lparr>transports := remove1 n (transports s)\<rparr>"
    by simp_all
  from h e c te tc se sc fe fc st show ?thesis by blast
qed

theorem transport_failure_disconnects_witness:
  "sessionCalls (trace connected) = [(0, CtlSetWeightedPrompts [bossa]), (0, CtlPlay)] \<and>
   sessionCalls (trace (step (OnClose 0) connected)) =
     [(0, CtlSetWeightedPrompts [bossa]), (0, CtlPlay)] \<and>
   trace (onerror connected) =
     trace connected @
     [PlaybackStateChanged Stopped, SetValueAtTime 0 0 0, LinearRampToValueAtTime 0 1 (1 / 10),
      ErrorEvent ''Connection error, please restart audio.''] \<and>
   playbackState (onclose connected) = Stopped \<and> session (onclose connected) = None \<and>
   sessionPromise (onclose connected) = None"
proof -
  have c: "sessionCalls (trace connected) = [(0, CtlSetWeightedPrompts [bossa]), (0, CtlPlay)]"
    "outputNode connected = 0" "currentTime connected = 0"
    by (simp_all add: connected_eq)
  note t = transport_failure_disconnects[of 0 connected]
  have cl: "sessionCalls (trace (onclose connected)) = sessionCalls (trace connected)"
    using t by blast
  have st: "step (OnClose 0) connected =
      (onclose connected)\<lparr>transports := remove1 0 (transports connected)\<rparr>"
    using t by blast
  have er: "trace (onerror connected) = trace connected @
     [PlaybackStateChanged Stopped,
      SetValueAtTime (outputNode connected) 0 (currentTime connected),
      LinearRampToValueAtTime (outputNode connected) 1 (currentTime connected + 0.1),
      ErrorEvent ''Connection error, please restart audio.'']"
    using t by blast
  have "sessionCalls (trace (step (OnClose 0) connected)) =
     [(0, CtlSetWeightedPrompts [bossa]), (0, CtlPlay)]"
    by (simp add: st cl c(1))
  moreover have "trace (onerror connected) =
     trace connected @
     [PlaybackStateChanged Stopped, SetValueAtTime 0 0 0, LinearRampToValueAtTime 0 1 (1 / 10),
      ErrorEvent ''Connection error, please restart audio.'']"
    by (simp add: er c(2,3))
  moreover have "playbackState (onclose connected) = Stopped"
    "session (onclose connected) = None" "sessionPromise (onclose connected) = None"
    using t by blast+
  ultimately show ?thesis using c(1) by blast
qed

subsection \<open>Prompts\<close>

text \<open>
  C5, as amended. An effective invocation with a snapshot \<open>ps\<close> that has no active
  prompt (every prompt has weight 0 or a filtered text), in any playback state:
  dispatches exactly one error event and calls \<^verbatim>\<open>pause()\<close>, so the state becomes
  \<open>Paused\<close>; no prompt update is sent, and no send is left pending; the one message to
  the remote session is the pause command of \<^verbatim>\<open>pause()\<close>, sent when there is a
  session.
\<close>

theorem no_active_prompt_pauses:
  assumes "activePrompts (s\<lparr>prompts := ps\<rparr>) = []"
  shows
    "playbackState (setWeightedPrompts_begin ps s) = Paused \<and>
     trace (setWeightedPrompts_begin ps s) =
       trace s @ [ErrorEvent ''There needs to be one active prompt to play.''] @
       (case session s of None \<Rightarrow> [] | Some n \<Rightarrow> [SessionCall n CtlPause]) @
       [PlaybackStateChanged Paused, SetValueAtTime (outputNode s) 1 (currentTime s),
        LinearRampToValueAtTime (outputNode s) 0 (currentTime s + 0.1),
        CreateGain (gainNodes s)] \<and>
     errors (trace (setWeightedPrompts_begin ps s)) =
       errors (trace s) @ [''There needs to be one active prompt to play.''] \<and>
     sessionCalls (trace (setWeightedPrompts_begin ps s)) =
       sessionCalls (trace s) @
       (case session s of None \<Rightarrow> [] | Some n \<Rightarrow> [(n, CtlPause)]) \<and>
     sending (setWeightedPrompts_begin ps s) = sending s"
proof -
  let ?e = "emit (ErrorEvent ''There needs to be one active prompt to play.'') (s\<lparr>prompts := ps\<rparr>)"
  have eq: "setWeightedPrompts_begin ps s = pause ?e"
    using assms by (simp add: setWeightedPrompts_begin_def Let_def)
  have tr: "trace (setWeightedPrompts_begin ps s) =
       trace s @ [ErrorEvent ''There needs to be one active prompt to play.''] @
       (case session s of None \<Rightarrow> [] | Some n \<Rightarrow> [SessionCall n CtlPause]) @
       [PlaybackStateChanged Paused, SetValueAtTime (outputNode s) 1 (currentTime s),
        LinearRampToValueAtTime (outputNode s) 0 (currentTime s + 0.1),
        CreateGain (gainNodes s)]"
    unfolding eq pause_trace by (simp add: emit_def)
  have er: "errors (trace (setWeightedPrompts_begin ps s)) =
       errors (trace s) @ [''There needs to be one active prompt to play.'']"
    unfolding tr by (simp add: errors_append split: option.splits)
  have ca: "sessionCalls (trace (setWeightedPrompts_begin ps s)) =
       sessionCalls (trace s) @
       (case session s of None \<Rightarrow> [] | Some n \<Rightarrow> [(n, CtlPause)])"
    unfolding tr by (simp add: sessionCalls_append split: option.splits)
  have fl: "playbackState (setWeightedPrompts_begin ps s) = Paused"
    "sending (setWeightedPrompts_begin ps s) = sending s"
    unfolding eq using pause_fields[of ?e] by (simp_all add: emit_def)
  from tr er ca fl show ?thesis by blast
qed

theorem no_active_prompt_pauses_witness:
  "activePrompts (initial\<lparr>prompts := [(''prompt-0'', bossa_muted)]\<rparr>) = [] \<and>
   playbackState (setWeightedPrompts_begin [(''prompt-0'', bossa_muted)] initial) = Paused \<and>
   errors (trace (setWeightedPrompts_begin [(''prompt-0'', bossa_muted)] initial)) =
     [''There needs to be one active prompt to play.''] \<and>
   sessionCalls (trace (setWeightedPrompts_begin [(''prompt-0'', bossa_muted)] initial)) = []"
proof -
  have h: "activePrompts (initial\<lparr>prompts := [(''prompt-0'', bossa_muted)]\<rparr>) = []"
    by (simp add: activePrompts_def initial_def bossa_muted_def bossa_def)
  from no_active_prompt_pauses[OF h] h show ?thesis
    by (simp add: initial_def)
qed

text \<open>
  C5 as stated fails: with a session connected, the invocation with a snapshot whose
  only prompt has weight 0 calls \<^verbatim>\<open>pause\<close> on the remote session.
\<close>

theorem no_active_prompt_counterexample:
  "run startup initial = Some connected \<and>
   activePrompts (connected\<lparr>prompts := [(''prompt-0'', bossa_muted)]\<rparr>) = [] \<and>
   sessionCalls (trace connected) = [(0, CtlSetWeightedPrompts [bossa]), (0, CtlPlay)] \<and>
   sessionCalls (trace (setWeightedPrompts_begin [(''prompt-0'', bossa_muted)] connected)) =
     [(0, CtlSetWeightedPrompts [bossa]), (0, CtlPlay), (0, CtlPause)]"
proof -
  have "activePrompts (connected\<lparr>prompts := [(''prompt-0'', bossa_muted)]\<rparr>) = []"
    by (simp add: activePrompts_def connected_eq bossa_muted_def bossa_def)
  moreover have "sessionCalls (trace connected) =
      [(0, CtlSetWeightedPrompts [bossa]), (0, CtlPlay)]"
    by (simp add: connected_eq)
  moreover have
    "sessionCalls (trace (setWeightedPrompts_begin [(''prompt-0'', bossa_muted)] connected)) =
     [(0, CtlSetWeightedPrompts [bossa]), (0, CtlPlay), (0, CtlPause)]"
    by (simp add: connected_eq setWeightedPrompts_begin_def activePrompts_def bossa_muted_def
        bossa_def pause_def setPlaybackState_def emit_def Let_def)
  ultimately show ?thesis using startup_run by blast
qed

















subsection \<open>Acquiring the session\<close>

text \<open>
  C6. While \<open>sessionPromise\<close> is set, \<^verbatim>\<open>getSession()\<close> returns that promise and changes
  nothing: no factory call, no second connection; in particular a second call right
  after a first returns what the first returned. When it is not set,
  \<^verbatim>\<open>getSession()\<close> starts an attempt, and every attempt begins by calling the factory:
  the attempt's transport is opened by the client of that call (the object has no
  field that could keep a client), and the promise stored then belongs to the same
  attempt as the one returned at first. After \<^verbatim>\<open>stop()\<close> or a disconnect the next
  \<^verbatim>\<open>getSession()\<close> calls the factory again.
\<close>

theorem getSession_reuses_pending:
  "(sessionPromise s = Some p \<longrightarrow> getSession s = (p, s)) \<and>
   (sessionPromise s = None \<longrightarrow>
      getSession s =
        (ConnectPromise (attempts s),
         s\<lparr>trace := trace s @ [AiFactory (attempts s)], attempts := Suc (attempts s),
           awaitingFactory := awaitingFactory s @ [attempts s],
           sessionPromise := Some (ConnectPromise (attempts s))\<rparr>)) \<and>
   getSession (snd (getSession s)) = (fst (getSession s), snd (getSession s)) \<and>
   fst (connect_begin s) = ConnectPromise (attempts s) \<and>
   trace (snd (connect_begin s)) = trace s @ [AiFactory (attempts s)] \<and>
   attempts (snd (connect_begin s)) = Suc (attempts s) \<and>
   trace (connect_resume n s) = trace s @ [LiveConnect n] \<and>
   getSession (connect_resume n s) = (LivePromise n, connect_resume n s) \<and>
   attempt_of (LivePromise n) = attempt_of (ConnectPromise n) \<and>
   factoryCalls (trace (snd (getSession (stop s)))) = factoryCalls (trace s) @ [attempts s] \<and>
   factoryCalls (trace (snd (getSession (handleDisconnect s)))) =
     factoryCalls (trace s) @ [attempts s]"
proof -
  have a: "sessionPromise s = Some p \<longrightarrow> getSession s = (p, s)"
    by (simp add: getSession_def)
  have b: "sessionPromise s = None \<longrightarrow>
      getSession s =
        (ConnectPromise (attempts s),
         s\<lparr>trace := trace s @ [AiFactory (attempts s)], attempts := Suc (attempts s),
           awaitingFactory := awaitingFactory s @ [attempts s],
           sessionPromise := Some (ConnectPromise (attempts s))\<rparr>)"
    by (simp add: getSession_def connect_begin_def emit_def Let_def)
  have c: "getSession (snd (getSession s)) = (fst (getSession s), snd (getSession s))"
    by (cases "sessionPromise s") (simp_all add: getSession_def connect_begin_def emit_def Let_def)
  have d: "fst (connect_begin s) = ConnectPromise (attempts s)"
    "trace (snd (connect_begin s)) = trace s @ [AiFactory (attempts s)]"
    "attempts (snd (connect_begin s)) = Suc (attempts s)"
    by (simp_all add: connect_begin_def emit_def Let_def)
  have e: "trace (connect_resume n s) = trace s @ [LiveConnect n]"
    "getSession (connect_resume n s) = (LivePromise n, connect_resume n s)"
    by (simp_all add: connect_resume_def getSession_def emit_def)
  have f: "attempt_of (LivePromise n) = attempt_of (ConnectPromise n)"
    by simp
  have g: "factoryCalls (trace (snd (getSession (stop s)))) =
      factoryCalls (trace s) @ [attempts s]"
    by (simp add: getSession_def connect_begin_def stop_def setPlaybackState_def emit_def Let_def
        factoryCalls_append split: option.splits)
  have h: "factoryCalls (trace (snd (getSession (handleDisconnect s)))) =
      factoryCalls (trace s) @ [attempts s]"
    by (simp add: getSession_def connect_begin_def handleDisconnect_def setPlaybackState_def
        emit_def Let_def factoryCalls_append)
  from a b c d e f g h show ?thesis by blast
qed

theorem getSession_reuses_pending_witness:
  "sessionPromise initial = None \<and>
   getSession initial =
     (ConnectPromise 0,
      initial\<lparr>trace := [AiFactory 0], attempts := 1, awaitingFactory := [0],
        sessionPromise := Some (ConnectPromise 0)\<rparr>) \<and>
   sessionPromise connected = Some (LivePromise 0) \<and>
   getSession connected = (LivePromise 0, connected)"
proof -
  have h: "sessionPromise initial = None" "sessionPromise connected = Some (LivePromise 0)"
    by (simp_all add: initial_def connected_eq)
  have "getSession initial =
     (ConnectPromise 0,
      initial\<lparr>trace := [AiFactory 0], attempts := 1, awaitingFactory := [0],
        sessionPromise := Some (ConnectPromise 0)\<rparr>)"
    using getSession_reuses_pending[of initial] h(1) by (simp add: initial_def)
  moreover have "getSession connected = (LivePromise 0, connected)"
    using getSession_reuses_pending[of connected "LivePromise 0"] h(2) by blast
  ultimately show ?thesis using h by blast
qed

subsection \<open>The invariant of the schedule\<close>

text \<open>
  C7, as amended. In every reachable state \<open>nextStartTime\<close> is not negative, and right
  after a decoded fragment has been processed it is 0 or not behind the device time.
  (Between fragments the device time can pass \<open>nextStartTime\<close> while the state is
  \<open>Playing\<close>; the code compares the two only when it processes a fragment.)
\<close>

theorem nextStartTime_nonneg_and_ahead_after_fragment:
  assumes "reachable s" and "0 < duration b"
  shows
    "0 \<le> nextStartTime s \<and>
     (nextStartTime (processAudioChunks_resume b s) = 0 \<or>
      currentTime (processAudioChunks_resume b s) \<le> nextStartTime (processAudioChunks_resume b s))"
  using reachable_nonneg[OF assms(1)] resume_ahead[of b s] assms(2) by simp

theorem nextStartTime_nonneg_and_ahead_after_fragment_witness:
  "reachable buffering \<and> 0 < duration \<lparr>duration = 2\<rparr> \<and> nextStartTime buffering = 3 \<and>
   0 \<le> nextStartTime buffering \<and>
   (nextStartTime (processAudioChunks_resume \<lparr>duration = 2\<rparr> buffering) = 0 \<or>
    currentTime (processAudioChunks_resume \<lparr>duration = 2\<rparr> buffering) \<le>
      nextStartTime (processAudioChunks_resume \<lparr>duration = 2\<rparr> buffering))"
proof -
  have d: "0 < duration \<lparr>duration = 2\<rparr>" by simp
  have n: "nextStartTime buffering = 3" by (simp add: buffering_eq)
  from nextStartTime_nonneg_and_ahead_after_fragment[OF buffering_reachable d]
    buffering_reachable d n
  show ?thesis by blast
qed

text \<open>
  C7 as stated fails. After the first fragment (one second long, started at 2) the
  timer fires at device time 2 and the state is \<open>Playing\<close>; no further fragment
  arrives, and at device time 4 the state is still \<open>Playing\<close> with \<open>nextStartTime = 3\<close>.
\<close>

theorem playing_behind_clock_counterexample:
  "(case run (startup @ first_fragment @ [Advance 2, TimerFired, Advance 2]) initial of
      None \<Rightarrow> False
    | Some s \<Rightarrow>
        reachable s \<and>
        (playbackState s = Playing \<and> nextStartTime s = 3 \<and> currentTime s = 4 \<and>
         \<not> (nextStartTime s = 0 \<or> currentTime s \<le> nextStartTime s)))"
proof (rule run_case_reachable)
  have "run (startup @ first_fragment @ [Advance 2, TimerFired, Advance 2]) initial =
      run [Advance 2, TimerFired, Advance 2] buffering"
    using first_fragment_run by (simp add: run_append flip: append_assoc)
  then show "case run (startup @ first_fragment @ [Advance 2, TimerFired, Advance 2]) initial of
      None \<Rightarrow> False
    | Some s \<Rightarrow>
        playbackState s = Playing \<and> nextStartTime s = 3 \<and> currentTime s = 4 \<and>
        \<not> (nextStartTime s = 0 \<or> currentTime s \<le> nextStartTime s)"
    by (simp add: buffering_eq connected_eq timer_fired_def setPlaybackState_def emit_def)
qed

subsection \<open>The toggle\<close>

text \<open>
  C8. \<^verbatim>\<open>playPause()\<close> calls \<^verbatim>\<open>pause()\<close> in state \<open>Playing\<close>, \<^verbatim>\<open>play()\<close> in state
  \<open>Paused\<close> or \<open>Stopped\<close>, and \<^verbatim>\<open>stop()\<close> in state \<open>Loading\<close>; the state it leaves is
  \<open>Paused\<close>, \<open>Loading\<close> (\<^verbatim>\<open>play()\<close> up to its first \<^verbatim>\<open>await\<close>) and \<open>Stopped\<close>.
\<close>

theorem playPause_dispatch:
  "(playbackState s = Playing \<longrightarrow> playPause s = pause s) \<and>
   (playbackState s = Paused \<longrightarrow> playPause s = play_begin s) \<and>
   (playbackState s = Stopped \<longrightarrow> playPause s = play_begin s) \<and>
   (playbackState s = Loading \<longrightarrow> playPause s = stop s) \<and>
   step UPlayPause s = playPause s \<and>
   playbackState (playPause s) =
     (case playbackState s of
        Playing \<Rightarrow> Paused | Paused \<Rightarrow> Loading | Stopped \<Rightarrow> Loading | Loading \<Rightarrow> Stopped)"
proof -
  have "playbackState (pause s) = Paused"
    by (simp add: pause_fields)
  moreover have "playbackState (play_begin s) = Loading"
    by (simp add: play_begin_def getSession_def connect_begin_def setPlaybackState_def emit_def
        Let_def split: option.splits prod.splits)
  moreover have "playbackState (stop s) = Stopped"
    by (simp add: stop_def setPlaybackState_def emit_def Let_def split: option.splits)
  ultimately show ?thesis
    by (simp add: playPause_def split: PlaybackState.splits)
qed

theorem playPause_dispatch_witness:
  "playbackState (timer_fired buffering) = Playing \<and>
   playPause (timer_fired buffering) = pause (timer_fired buffering) \<and>
   playbackState (pause connected) = Paused \<and>
   playPause (pause connected) = play_begin (pause connected) \<and>
   playbackState initial = Stopped \<and> playPause initial = play_begin initial \<and>
   playbackState connected = Loading \<and> playPause connected = stop connected"
proof -
  have h: "playbackState (timer_fired buffering) = Playing"
    "playbackState (pause connected) = Paused"
    "playbackState initial = Stopped"
    "playbackState connected = Loading"
    by (simp_all add: timer_fired_def setPlaybackState_def emit_def pause_fields initial_def
        connected_eq)
  from playPause_dispatch[of "timer_fired buffering"] playPause_dispatch[of "pause connected"]
    playPause_dispatch[of initial] playPause_dispatch[of connected] h
  show ?thesis by blast
qed

subsection \<open>The timer\<close>

text \<open>
  C9. A fragment that arrives while the state is neither \<open>Paused\<close> nor \<open>Stopped\<close> is
  handed to the decoder; when its second segment finds \<open>nextStartTime = 0\<close> it arms a
  timer of \<open>bufferTime\<close> seconds (2000 ms). \<^verbatim>\<open>pause()\<close>, \<^verbatim>\<open>stop()\<close> and the disconnect
  handler leave armed timers armed. Whatever the state is when the timer fires, its
  callback sets the state to \<open>Playing\<close>: also right after \<^verbatim>\<open>pause()\<close>, \<^verbatim>\<open>stop()\<close> or a
  disconnect.
\<close>

theorem timer_sets_playing_unguarded:
  "(playbackState s \<noteq> Paused \<and> playbackState s \<noteq> Stopped \<longrightarrow>
      processAudioChunks_begin (c # cs) s = s\<lparr>decoding := decoding s @ [c]\<rparr>) \<and>
   (nextStartTime s = 0 \<longrightarrow>
      trace (processAudioChunks_resume b s) =
        trace s @ [SourceCreated b (outputNode s), SetTimeout (bufferTime * 1000),
                   SourceStart b (currentTime s + bufferTime)] \<and>
      timers (processAudioChunks_resume b s) = Suc (timers s)) \<and>
   bufferTime * 1000 = 2000 \<and>
   timers (pause s) = timers s \<and> timers (stop s) = timers s \<and>
   timers (handleDisconnect s) = timers s \<and> timers (onerror s) = timers s \<and>
   timers (onclose s) = timers s \<and>
   step TimerFired s = timer_fired s \<and>
   playbackState (timer_fired s) = Playing \<and>
   trace (timer_fired s) = trace s @ [PlaybackStateChanged Playing] \<and>
   playbackState (timer_fired (pause s)) = Playing \<and>
   playbackState (timer_fired (stop s)) = Playing \<and>
   playbackState (timer_fired (onerror s)) = Playing \<and>
   playbackState (timer_fired (onclose s)) = Playing"
proof -
  have a: "playbackState s \<noteq> Paused \<and> playbackState s \<noteq> Stopped \<longrightarrow>
      processAudioChunks_begin (c # cs) s = s\<lparr>decoding := decoding s @ [c]\<rparr>"
    by (simp add: processAudioChunks_begin_def)
  have b: "nextStartTime s = 0 \<longrightarrow>
      trace (processAudioChunks_resume b s) =
        trace s @ [SourceCreated b (outputNode s), SetTimeout (bufferTime * 1000),
                   SourceStart b (currentTime s + bufferTime)] \<and>
      timers (processAudioChunks_resume b s) = Suc (timers s)"
    by (simp add: resume_anchor)
  have c: "bufferTime * 1000 = 2000"
    by (simp add: bufferTime_def)
  have d: "timers (pause s) = timers s" "timers (stop s) = timers s"
    "timers (handleDisconnect s) = timers s" "timers (onerror s) = timers s"
    "timers (onclose s) = timers s"
    by (simp_all add: pause_fields stop_def handleDisconnect_def onerror_def onclose_def
        setPlaybackState_def emit_def Let_def split: option.splits)
  have e: "playbackState (timer_fired s) = Playing"
    "trace (timer_fired s) = trace s @ [PlaybackStateChanged Playing]" for s
    by (simp_all add: timer_fired_def setPlaybackState_def emit_def)
  have f: "step TimerFired s = timer_fired s"
    by simp
  from a b c d e[of s] e(1)[of "pause s"] e(1)[of "stop s"] e(1)[of "onerror s"]
    e(1)[of "onclose s"] f
  show ?thesis by blast
qed

theorem timer_sets_playing_unguarded_witness:
  "playbackState connected = Loading \<and> nextStartTime connected = 0 \<and>
   processAudioChunks_begin [chunk] connected = connected\<lparr>decoding := [chunk]\<rparr> \<and>
   timers (processAudioChunks_resume \<lparr>duration = 1\<rparr> connected) = 1 \<and>
   trace (processAudioChunks_resume \<lparr>duration = 1\<rparr> connected) =
     trace connected @
     [SourceCreated \<lparr>duration = 1\<rparr> 0, SetTimeout 2000, SourceStart \<lparr>duration = 1\<rparr> 2] \<and>
   timers (pause (processAudioChunks_resume \<lparr>duration = 1\<rparr> connected)) = 1 \<and>
   playbackState (pause (processAudioChunks_resume \<lparr>duration = 1\<rparr> connected)) = Paused \<and>
   playbackState (timer_fired (pause (processAudioChunks_resume \<lparr>duration = 1\<rparr> connected))) =
     Playing"
proof -
  have h: "playbackState connected = Loading" "nextStartTime connected = 0"
    "decoding connected = []" "timers connected = 0" "outputNode connected = 0"
    "currentTime connected = 0"
    by (simp_all add: connected_eq)
  note t = timer_sets_playing_unguarded[of connected chunk "[]" "\<lparr>duration = 1\<rparr>"]
  note u = timer_sets_playing_unguarded[of "processAudioChunks_resume \<lparr>duration = 1\<rparr> connected"]
  have a: "processAudioChunks_begin [chunk] connected = connected\<lparr>decoding := [chunk]\<rparr>"
    using t h by simp
  have b: "timers (processAudioChunks_resume \<lparr>duration = 1\<rparr> connected) = 1"
    "trace (processAudioChunks_resume \<lparr>duration = 1\<rparr> connected) =
     trace connected @
     [SourceCreated \<lparr>duration = 1\<rparr> 0, SetTimeout 2000, SourceStart \<lparr>duration = 1\<rparr> 2]"
    using t h by (simp_all add: bufferTime_def)
  have c: "timers (pause (processAudioChunks_resume \<lparr>duration = 1\<rparr> connected)) = 1"
    "playbackState (timer_fired (pause (processAudioChunks_resume \<lparr>duration = 1\<rparr> connected))) =
     Playing"
    using u b(1) by simp_all
  have d: "playbackState (pause (processAudioChunks_resume \<lparr>duration = 1\<rparr> connected)) = Paused"
    by (simp add: pause_fields)
  from h a b c d show ?thesis by blast
qed

end
